theory Spec2Isabelle
  imports Main
begin

section \<open>Strings\<close>

text \<open>
  Source strings are modelled as HOL strings (lists of 8-bit characters).
  \<open>toLowerCase\<close> is the host language's \<^verbatim>\<open>String.prototype.toLowerCase\<close> on the
  ASCII letters: \<open>A\<close> .. \<open>Z\<close> (codes 65 .. 90) are moved to \<open>a\<close> .. \<open>z\<close>, every other
  character is kept. It is used where names are matched against the keys \<open>copy\<close>,
  \<open>name\<close> and \<open>input\<close>, whose letters only their ASCII capitals lower-case to. Where
  text is lower-cased for display (the parameter types of \<^verbatim>\<open>Hover.ts\<close>), the
  primitive is not fixed: the functions take it as the argument \<open>lowerCase\<close>, and the
  statements hold for every such function.
\<close>

definition toLowerCaseChar :: "char \<Rightarrow> char" where
  "toLowerCaseChar c =
     (let n = (of_char c :: nat) in if 65 \<le> n \<and> n \<le> 90 then char_of (n + 32) else c)"

definition toLowerCase :: "string \<Rightarrow> string" where
  "toLowerCase s = map toLowerCaseChar s"

text \<open>\<^verbatim>\<open>Array.prototype.join\<close> on an array of strings.\<close>

fun join :: "string \<Rightarrow> string list \<Rightarrow> string" where
  "join sep [] = []"
| "join sep [x] = x"
| "join sep (x # y # ys) = x @ sep @ join sep (y # ys)"

section \<open>The JSON parse tree (JSON.ts, Language.ts, constants.ts)\<close>

text \<open>
  Modelled from the spec: the JSON layer (\<^verbatim>\<open>JSON.ts\<close>), the span type
  (\<^verbatim>\<open>Language.Span\<close>) and the well-known keys (\<^verbatim>\<open>templateKeys\<close> of
  \<^verbatim>\<open>constants.ts\<close>) are used by the sources but are not among them. The spec gives
  them as: an immutable parse tree of object, array, string and property nodes, each
  with a span; a span is a range of character offsets; helper predicates narrow a
  generic value to the object, array or string kind; a property is looked up by a
  case-insensitive match of its name; the well-known keys are \<open>copy\<close>, \<open>name\<close> and
  \<open>input\<close>.

  The value of a property may be missing (\<^verbatim>\<open>Json.Value | null\<close> in the sources that
  read it), so it is an option; \<open>None\<close> stands for the host language's \<^verbatim>\<open>null\<close>.
\<close>

datatype language_span = Span (startIndex: nat) (spanLength: nat)

datatype stringValue = StringNode (stringSpan: language_span) (unquotedValue: string)

datatype json =
    NullValue language_span
  | BooleanValue language_span bool
  | NumberValue language_span string
  | StringValue stringValue
  | ArrayValue language_span (elements: "json list")
  | ObjectValue language_span (properties: "property list")
and property =
    Property (propertySpan: language_span) (nameValue: stringValue) (propertyValue: "json option")

fun span :: "json \<Rightarrow> language_span" where
  "span (NullValue s) = s"
| "span (BooleanValue s b) = s"
| "span (NumberValue s t) = s"
| "span (StringValue n) = stringSpan n"
| "span (ArrayValue s es) = s"
| "span (ObjectValue s ps) = s"

text \<open>
  Modelled from the spec: the narrowing helpers of the JSON layer. Each takes a value
  or \<^verbatim>\<open>null\<close> and gives the value back when it is of the kind asked for.
\<close>

fun asObjectValue :: "json option \<Rightarrow> json option" where
  "asObjectValue (Some (ObjectValue s ps)) = Some (ObjectValue s ps)"
| "asObjectValue _ = None"

fun asArrayValue :: "json option \<Rightarrow> json option" where
  "asArrayValue (Some (ArrayValue s es)) = Some (ArrayValue s es)"
| "asArrayValue _ = None"

fun asStringValue :: "json option \<Rightarrow> stringValue option" where
  "asStringValue (Some (StringValue n)) = Some n"
| "asStringValue _ = None"

text \<open>
  Modelled from the spec: \<^verbatim>\<open>ObjectValue.getPropertyValue\<close>, the value of the property
  whose name matches the key case-insensitively, \<^verbatim>\<open>null\<close> when there is none. The spec
  does not say which property answers when several names match; here the last one in
  document order does. The theorems below state their conditions on an object through
  this lookup.
\<close>

fun findProperty :: "string \<Rightarrow> property list \<Rightarrow> property option" where
  "findProperty key [] = None"
| "findProperty key (p # ps) =
     (case findProperty key ps of
        Some q \<Rightarrow> Some q
      | None \<Rightarrow>
          if toLowerCase (unquotedValue (nameValue p)) = toLowerCase key then Some p else None)"

definition getPropertyValue :: "json \<Rightarrow> string \<Rightarrow> json option" where
  "getPropertyValue obj propertyName =
     (case findProperty propertyName (properties obj) of
        Some p \<Rightarrow> propertyValue p
      | None \<Rightarrow> None)"

text \<open>Modelled from the spec: the well-known keys of \<^verbatim>\<open>templateKeys\<close>.\<close>

definition templateKeys_copy :: string where
  "templateKeys_copy = ''copy''"

definition templateKeys_loopVarName :: string where
  "templateKeys_loopVarName = ''name''"

definition templateKeys_loopVarInput :: string where
  "templateKeys_loopVarInput = ''input''"

section \<open>CachedValue (CachedValue.ts)\<close>

text \<open>
  The cell has the two fields of the class. Neither has an initialiser, so a new cell
  holds \<^verbatim>\<open>undefined\<close> in both: the flag is falsy and the value is unset (\<open>None\<close>).

  The function passed to \<open>getOrCacheValue\<close> is a closure of the host language: it may
  read and change the world \<open>'w\<close> around it, and it either returns a value or throws
  (\<open>Inl\<close>). The model threads the world through the call, so that what the closure did
  to it, and whether it ran at all, can be read off the result.
\<close>

record 'a CachedValue =
  isCached :: bool
  cachedValue :: "'a option"

definition newCachedValue :: "'a CachedValue" where
  "newCachedValue = \<lparr>isCached = False, cachedValue = None\<rparr>"

definition getOrCacheValue ::
  "('w \<Rightarrow> ('e + 'a) \<times> 'w) \<Rightarrow> 'a CachedValue \<Rightarrow> 'w \<Rightarrow> ('e + 'a option) \<times> 'a CachedValue \<times> 'w"
where
  "getOrCacheValue calculateValue c w =
     (if \<not> isCached c then
        (case calculateValue w of
           (Inl e, w') \<Rightarrow> (Inl e, c, w')
         | (Inr v, w') \<Rightarrow>
             (let c' = c\<lparr>cachedValue := Some v\<rparr>;
                  c'' = c'\<lparr>isCached := True\<rparr>
              in (Inr (cachedValue c''), c'', w')))
      else (Inr (cachedValue c), c, w))"

section \<open>Variable definitions (VariableDefinition.ts)\<close>

subsection \<open>TopLevelVariableDefinition\<close>

text \<open>
  The loop over the elements of the \<open>copy\<close> array. \<open>modifiedMembers\<close> is the array the
  loop pushes to; an element that is not an object, or has no string \<open>name\<close>, or has no
  \<open>input\<close>, leaves it as it is.
\<close>

fun addLoopVars :: "json list \<Rightarrow> property list \<Rightarrow> property list" where
  "addLoopVars [] modifiedMembers = modifiedMembers"
| "addLoopVars (loopVar # rest) modifiedMembers =
     (case asObjectValue (Some loopVar) of
        Some loopVarObject \<Rightarrow>
          (let name = asStringValue (getPropertyValue loopVarObject templateKeys_loopVarName);
               input = getPropertyValue loopVarObject templateKeys_loopVarInput
           in case (name, input) of
                (Some n, Some i) \<Rightarrow>
                  (let array = ArrayValue (span i) [i];
                       loopValueProperty = Property (span i) n (Some array)
                   in addLoopVars rest (modifiedMembers @ [loopValueProperty]))
              | _ \<Rightarrow> addLoopVars rest modifiedMembers)
      | None \<Rightarrow> addLoopVars rest modifiedMembers)"

text \<open>The body of the closure that the \<open>value\<close> getter hands to its cache.\<close>

definition computeValue :: "property \<Rightarrow> json option" where
  "computeValue prop =
     (let value = propertyValue prop in
      case asObjectValue value of
        Some valueObject \<Rightarrow>
          (case asArrayValue (getPropertyValue valueObject templateKeys_copy) of
             Some copyPropertyArray \<Rightarrow>
               (let copyKeyLC = toLowerCase templateKeys_copy;
                    modifiedMembers =
                      filter (\<lambda>p. toLowerCase (unquotedValue (nameValue p)) \<noteq> copyKeyLC)
                        (properties valueObject)
                in Some (ObjectValue (span valueObject)
                           (addLoopVars (elements copyPropertyArray) modifiedMembers)))
           | None \<Rightarrow> value)
      | None \<Rightarrow> value)"

text \<open>
  The definition object: the wrapped property and the cache cell of the getter (the
  field \<^verbatim>\<open>_nameValue\<close>). The closure of the getter changes nothing around it; the
  world it is given is a counter of the evaluations of its body, which it steps, so
  that the number of times the computation ran is visible. It never throws.

  The getter returns what the cell holds: \<open>Inr (Some x)\<close> is the stored result \<open>x\<close> of
  the closure, itself a value or \<^verbatim>\<open>null\<close> (\<open>x = None\<close>). JSON nodes are immutable
  values here, so that two results are the same object when they are equal and no
  constructor ran between them.
\<close>

record TopLevelVariableDefinition =
  tlv_property :: property
  tlv_nameValue :: "json option CachedValue"

definition newTopLevelVariableDefinition :: "property \<Rightarrow> TopLevelVariableDefinition" where
  "newTopLevelVariableDefinition prop = \<lparr>tlv_property = prop, tlv_nameValue = newCachedValue\<rparr>"

definition valueClosure :: "property \<Rightarrow> nat \<Rightarrow> (unit + json option) \<times> nat" where
  "valueClosure prop evaluations = (Inr (computeValue prop), Suc evaluations)"

definition tlv_value ::
  "TopLevelVariableDefinition \<Rightarrow> nat \<Rightarrow>
     (unit + json option option) \<times> TopLevelVariableDefinition \<times> nat"
where
  "tlv_value d evaluations =
     (case getOrCacheValue (valueClosure (tlv_property d)) (tlv_nameValue d) evaluations of
        (r, c, evaluations') \<Rightarrow> (r, d\<lparr>tlv_nameValue := c\<rparr>, evaluations'))"

text \<open>Reading the getter \<open>n\<close> times in a row; the results come in the order of the reads.\<close>

fun readValue ::
  "nat \<Rightarrow> TopLevelVariableDefinition \<Rightarrow> nat \<Rightarrow>
     (unit + json option option) list \<times> TopLevelVariableDefinition \<times> nat"
where
  "readValue 0 d evaluations = ([], d, evaluations)"
| "readValue (Suc n) d evaluations =
     (case tlv_value d evaluations of
        (r, d', evaluations') \<Rightarrow>
          (case readValue n d' evaluations' of
             (rs, d'', evaluations'') \<Rightarrow> (r # rs, d'', evaluations'')))"

subsection \<open>TopLevelCopyBlockVariableDefinition\<close>

record TopLevelCopyBlockVariableDefinition =
  cbv_copyVariableObject :: json
  cbv_nameValue :: stringValue
  cbv_value :: "json option"

text \<open>The constructor: the value is a one-element array around \<open>input\<close>, or \<^verbatim>\<open>null\<close>.\<close>

definition newTopLevelCopyBlockVariableDefinition ::
  "json \<Rightarrow> stringValue \<Rightarrow> json option \<Rightarrow> TopLevelCopyBlockVariableDefinition"
where
  "newTopLevelCopyBlockVariableDefinition copyVariableObject name input =
     \<lparr>cbv_copyVariableObject = copyVariableObject,
      cbv_nameValue = name,
      cbv_value = (case input of Some i \<Rightarrow> Some (ArrayValue (span i) [i]) | None \<Rightarrow> None)\<rparr>"

text \<open>\<open>None\<close> is the \<^verbatim>\<open>undefined\<close> that the factory returns; it never throws.\<close>

definition createIfValid :: "json \<Rightarrow> TopLevelCopyBlockVariableDefinition option" where
  "createIfValid copyVariableObject =
     (case asObjectValue (Some copyVariableObject) of
        Some asObject \<Rightarrow>
          (case asStringValue (getPropertyValue asObject templateKeys_loopVarName) of
             Some name \<Rightarrow>
               (let value = getPropertyValue asObject templateKeys_loopVarInput
                in Some (newTopLevelCopyBlockVariableDefinition asObject name value))
           | None \<Rightarrow> None)
      | None \<Rightarrow> None)"

section \<open>Hover information (Hover.ts)\<close>

text \<open>
  Modelled from the spec: the definition classes that the hover information reads
  (\<^verbatim>\<open>UserFunctionParameterDefinition\<close>, \<^verbatim>\<open>UserFunctionDefinition\<close>,
  \<^verbatim>\<open>UserFunctionNamespaceDefinition\<close>) are not among the sources. Only the fields
  that \<^verbatim>\<open>Hover.ts\<close> reads are kept: a parameter has a name and an optional \<open>type\<close>
  value, a function a name and its parameters in order, a namespace a name and its
  member functions in order.
\<close>

record UserFunctionParameterDefinition =
  pd_name :: stringValue
  pd_type :: "json option"

record UserFunctionDefinition =
  fd_name :: stringValue
  parameterDefinitions :: "UserFunctionParameterDefinition list"

record UserFunctionNamespaceDefinition =
  namespaceName :: stringValue
  members :: "UserFunctionDefinition list"

text \<open>The line feed of the template literals.\<close>

definition newline :: string where
  "newline = [CHR 0x0A]"

subsection \<open>FunctionInfo and ParameterReferenceInfo\<close>

text \<open>
  The description of a \<open>FunctionInfo\<close> is declared a string and that of a
  \<open>ParameterReferenceInfo\<close> a string or \<^verbatim>\<open>null\<close>; both are tested for truth only, so
  both are options here and an absent description is \<open>None\<close>. A string or
  \<^verbatim>\<open>null\<close> used as a condition is true when it is a non-empty string.
\<close>

record FunctionInfo =
  fi_name :: string
  fi_usage :: string
  fi_description :: "string option"
  fi_span :: language_span

definition FunctionInfo_getHoverText :: "FunctionInfo \<Rightarrow> string" where
  "FunctionInfo_getHoverText i =
     ''**'' @ fi_usage i @ ''**'' @
       (case fi_description i of
          Some d \<Rightarrow> if d \<noteq> [] then newline @ d else []
        | None \<Rightarrow> [])"

record ParameterReferenceInfo =
  pri_name :: string
  pri_description :: "string option"
  pri_span :: language_span

definition ParameterReferenceInfo_getHoverText :: "ParameterReferenceInfo \<Rightarrow> string" where
  "ParameterReferenceInfo_getHoverText i =
     ''**'' @ pri_name i @ ''** (parameter)'' @
       (case pri_description i of
          Some d \<Rightarrow> if d \<noteq> [] then newline @ d else []
        | None \<Rightarrow> [])"

subsection \<open>UserFunctionInfo\<close>

text \<open>
  \<open>lowerCase\<close> is \<^verbatim>\<open>String.prototype.toLowerCase\<close>, which \<open>getParamUsage\<close> applies to
  the type text.
\<close>

definition getParamUsage ::
  "(string \<Rightarrow> string) \<Rightarrow> UserFunctionParameterDefinition \<Rightarrow> string"
where
  "getParamUsage lowerCase pd =
     (let paramName = unquotedValue (pd_name pd);
          paramTypeValue = asStringValue (pd_type pd);
          paramType = (case paramTypeValue of Some v \<Rightarrow> Some (unquotedValue v) | None \<Rightarrow> None);
          paramTypeLC =
            (case paramType of
               Some t \<Rightarrow> if t \<noteq> [] then Some (lowerCase t) else Some t
             | None \<Rightarrow> None)
      in case paramTypeLC of
           Some t \<Rightarrow> if t \<noteq> [] then paramName @ '' ['' @ t @ '']'' else paramName
         | None \<Rightarrow> paramName)"

definition getUsage ::
  "(string \<Rightarrow> string) \<Rightarrow> UserFunctionNamespaceDefinition option \<Rightarrow>
     UserFunctionDefinition \<Rightarrow> string"
where
  "getUsage lowerCase namespace func =
     (let ns = (case namespace of Some n \<Rightarrow> unquotedValue (namespaceName n) | None \<Rightarrow> []);
          name = unquotedValue (fd_name func);
          params = parameterDefinitions func
      in (if ns \<noteq> [] then ns @ ''.'' else ns) @ name @ ''('' @
           join '', '' (map (getParamUsage lowerCase) params) @ '')'')"

record UserFunctionInfo =
  ufi_namespace :: UserFunctionNamespaceDefinition
  ufi_function :: UserFunctionDefinition
  ufi_span :: language_span

definition UserFunctionInfo_getHoverText ::
  "(string \<Rightarrow> string) \<Rightarrow> UserFunctionInfo \<Rightarrow> string"
where
  "UserFunctionInfo_getHoverText lowerCase i =
     (let usage = getUsage lowerCase (Some (ufi_namespace i)) (ufi_function i)
      in ''**'' @ usage @ ''** User-defined function'')"

subsection \<open>UserNamespaceInfo\<close>

record UserNamespaceInfo =
  uni_namespace :: UserFunctionNamespaceDefinition
  uni_span :: language_span

definition UserNamespaceInfo_getHoverText ::
  "(string \<Rightarrow> string) \<Rightarrow> UserNamespaceInfo \<Rightarrow> string"
where
  "UserNamespaceInfo_getHoverText lowerCase i =
     (let ns = unquotedValue (namespaceName (uni_namespace i));
          methodsUsage = map (\<lambda>md. getUsage lowerCase None md) (members (uni_namespace i));
          summary = ''**'' @ ns @ ''** User-defined namespace''
      in if length methodsUsage > 0
         then summary @ newline @ ''Members:'' @ newline @
                join newline (map (\<lambda>mu. ''* '' @ mu) methodsUsage)
         else summary @ newline @ ''No members'')"

section \<open>Notions used in the statements\<close>

text \<open>
  The spans of all the nodes of a value: its own, and those of the nodes under it
  (elements, properties, property names and property values).
\<close>

fun allSpans :: "json \<Rightarrow> language_span list"
  and propertySpans :: "property \<Rightarrow> language_span list"
where
  "allSpans (NullValue s) = [s]"
| "allSpans (BooleanValue s b) = [s]"
| "allSpans (NumberValue s t) = [s]"
| "allSpans (StringValue n) = [stringSpan n]"
| "allSpans (ArrayValue s es) = s # concat (map allSpans es)"
| "allSpans (ObjectValue s ps) = s # concat (map propertySpans ps)"
| "propertySpans (Property s n v) =
     s # stringSpan n # (case v of Some j \<Rightarrow> allSpans j | None \<Rightarrow> [])"

text \<open>
  The copy-block expansion as the spec words it. A member is a copy member when its
  name equals \<open>copy\<close> case-insensitively. An element of the copy array that is an object
  with a string \<open>name\<close> and an \<open>input\<close> stands for one synthesized property, named by
  that name, whose value is the one-element array holding \<open>input\<close>; both carry the span
  of \<open>input\<close>. Any other element stands for none.
\<close>

definition isCopyMember :: "property \<Rightarrow> bool" where
  "isCopyMember p = (toLowerCase (unquotedValue (nameValue p)) = toLowerCase ''copy'')"

definition spec_synthesizedMembers :: "json \<Rightarrow> property list" where
  "spec_synthesizedMembers e =
     (case e of
        ObjectValue s ps \<Rightarrow>
          (case asStringValue (getPropertyValue e ''name'') of
             Some n \<Rightarrow>
               (case getPropertyValue e ''input'' of
                  Some i \<Rightarrow> [Property (span i) n (Some (ArrayValue (span i) [i]))]
                | None \<Rightarrow> [])
           | None \<Rightarrow> [])
      | _ \<Rightarrow> [])"

text \<open>
  The rendering of one parameter as the spec words it, with the condition the code
  has: the bare name, or the name followed by the lower-cased type in brackets when
  the parameter has a string-valued \<open>type\<close> whose text is not empty. \<open>lowerCase\<close> is the
  lower-casing of the host language.
\<close>

definition spec_paramUsage ::
  "(string \<Rightarrow> string) \<Rightarrow> UserFunctionParameterDefinition \<Rightarrow> string"
where
  "spec_paramUsage lowerCase pd =
     (case pd_type pd of
        Some (StringValue t) \<Rightarrow>
          if unquotedValue t = [] then unquotedValue (pd_name pd)
          else unquotedValue (pd_name pd) @ '' ['' @ lowerCase (unquotedValue t) @ '']''
      | _ \<Rightarrow> unquotedValue (pd_name pd))"

section \<open>Example documents\<close>

text \<open>
  The documents of the examples, with the spans their nodes have in the text shown.

  \<^verbatim>\<open>{"name":"x","input":1}\<close>, \<^verbatim>\<open>{"name":"x"}\<close>, \<^verbatim>\<open>{"input":1}\<close> and the string \<^verbatim>\<open>"x"\<close>:
\<close>

definition doc_name_input :: json where
  "doc_name_input =
     ObjectValue (Span 0 22)
       [Property (Span 1 10) (StringNode (Span 1 6) ''name'')
          (Some (StringValue (StringNode (Span 8 3) ''x''))),
        Property (Span 12 9) (StringNode (Span 12 7) ''input'')
          (Some (NumberValue (Span 20 1) ''1''))]"

definition doc_name_only :: json where
  "doc_name_only =
     ObjectValue (Span 0 12)
       [Property (Span 1 10) (StringNode (Span 1 6) ''name'')
          (Some (StringValue (StringNode (Span 8 3) ''x'')))]"

definition doc_input_only :: json where
  "doc_input_only =
     ObjectValue (Span 0 11)
       [Property (Span 1 9) (StringNode (Span 1 7) ''input'')
          (Some (NumberValue (Span 9 1) ''1''))]"

definition doc_string :: json where
  "doc_string = StringValue (StringNode (Span 0 3) ''x'')"

text \<open>
  The variable \<^verbatim>\<open>"v":{"copy":[{"name":"disks","count":5,"input":"X"}],"other":1}\<close>:
\<close>

definition doc_disks_loop :: json where
  "doc_disks_loop =
     ObjectValue (Span 13 38)
       [Property (Span 14 14) (StringNode (Span 14 6) ''name'')
          (Some (StringValue (StringNode (Span 21 7) ''disks''))),
        Property (Span 29 9) (StringNode (Span 29 7) ''count'')
          (Some (NumberValue (Span 37 1) ''5'')),
        Property (Span 39 11) (StringNode (Span 39 7) ''input'')
          (Some (StringValue (StringNode (Span 47 3) ''X'')))]"

definition doc_variable :: property where
  "doc_variable =
     Property (Span 0 63) (StringNode (Span 0 3) ''v'')
       (Some (ObjectValue (Span 4 59)
          [Property (Span 5 47) (StringNode (Span 5 6) ''copy'')
             (Some (ArrayValue (Span 12 40) [doc_disks_loop])),
           Property (Span 53 9) (StringNode (Span 53 7) ''other'')
             (Some (NumberValue (Span 61 1) ''1''))]))"

text \<open>
  Variables without a copy array: \<^verbatim>\<open>"v":"x"\<close>, \<^verbatim>\<open>"v":{"other":1}\<close> and
  \<^verbatim>\<open>"v":{"copy":1}\<close>.
\<close>

definition doc_variable_string :: property where
  "doc_variable_string =
     Property (Span 0 7) (StringNode (Span 0 3) ''v'')
       (Some (StringValue (StringNode (Span 4 3) ''x'')))"

definition doc_variable_no_copy :: property where
  "doc_variable_no_copy =
     Property (Span 0 15) (StringNode (Span 0 3) ''v'')
       (Some (ObjectValue (Span 4 11)
          [Property (Span 5 9) (StringNode (Span 5 7) ''other'')
             (Some (NumberValue (Span 13 1) ''1''))]))"

definition doc_variable_copy_number :: property where
  "doc_variable_copy_number =
     Property (Span 0 14) (StringNode (Span 0 3) ''v'')
       (Some (ObjectValue (Span 4 10)
          [Property (Span 5 8) (StringNode (Span 5 6) ''copy'')
             (Some (NumberValue (Span 12 1) ''1''))]))"

text \<open>
  User functions: \<open>f\<close> with the parameters \<^verbatim>\<open>[{name:"a"},{name:"b",type:"string"}]\<close>,
  \<open>g\<close> with one parameter of type \<^verbatim>\<open>"SecureString"\<close>, \<open>h\<close> with one parameter whose type
  is the empty string, and \<open>k\<close> without parameters; the namespace \<open>ns\<close> with the members
  \<open>f\<close> and \<open>g\<close>, a namespace without members, and a namespace whose name is the empty
  string.
\<close>

definition fun_f :: UserFunctionDefinition where
  "fun_f =
     \<lparr>fd_name = StringNode (Span 40 3) ''f'',
      parameterDefinitions =
        [\<lparr>pd_name = StringNode (Span 70 3) ''a'', pd_type = None\<rparr>,
         \<lparr>pd_name = StringNode (Span 85 3) ''b'',
          pd_type = Some (StringValue (StringNode (Span 96 8) ''string''))\<rparr>]\<rparr>"

definition fun_g :: UserFunctionDefinition where
  "fun_g =
     \<lparr>fd_name = StringNode (Span 120 3) ''g'',
      parameterDefinitions =
        [\<lparr>pd_name = StringNode (Span 150 3) ''p'',
          pd_type = Some (StringValue (StringNode (Span 161 14) ''SecureString''))\<rparr>]\<rparr>"

definition fun_h :: UserFunctionDefinition where
  "fun_h =
     \<lparr>fd_name = StringNode (Span 40 3) ''h'',
      parameterDefinitions =
        [\<lparr>pd_name = StringNode (Span 70 3) ''a'',
          pd_type = Some (StringValue (StringNode (Span 81 2) []))\<rparr>]\<rparr>"

definition fun_k :: UserFunctionDefinition where
  "fun_k = \<lparr>fd_name = StringNode (Span 40 3) ''k'', parameterDefinitions = []\<rparr>"

definition namespace_ns :: UserFunctionNamespaceDefinition where
  "namespace_ns = \<lparr>namespaceName = StringNode (Span 14 4) ''ns'', members = [fun_f, fun_g]\<rparr>"

definition namespace_no_members :: UserFunctionNamespaceDefinition where
  "namespace_no_members = \<lparr>namespaceName = StringNode (Span 14 4) ''ns'', members = []\<rparr>"

definition namespace_unnamed :: UserFunctionNamespaceDefinition where
  "namespace_unnamed = \<lparr>namespaceName = StringNode (Span 14 2) [], members = [fun_k]\<rparr>"

section \<open>The cache cell\<close>

lemma getOrCacheValue_cached:
  "isCached c \<Longrightarrow> getOrCacheValue other c w = (Inr (cachedValue c), c, w)"
  by (simp add: getOrCacheValue_def)

lemma getOrCacheValue_fresh_ok:
  "\<not> isCached c \<Longrightarrow> calculateValue w = (Inr v, w1) \<Longrightarrow>
     getOrCacheValue calculateValue c w =
       (Inr (Some v), c\<lparr>cachedValue := Some v, isCached := True\<rparr>, w1)"
  by (simp add: getOrCacheValue_def)

lemma tlv_value_fresh:
  "tlv_value (newTopLevelVariableDefinition p) k =
     (Inr (Some (computeValue p)),
      \<lparr>tlv_property = p, tlv_nameValue = \<lparr>isCached = True, cachedValue = Some (computeValue p)\<rparr>\<rparr>,
      Suc k)"
  by (simp add: tlv_value_def newTopLevelVariableDefinition_def getOrCacheValue_def
      newCachedValue_def valueClosure_def)

lemma tlv_value_cached:
  "isCached (tlv_nameValue d) \<Longrightarrow> tlv_value d k = (Inr (cachedValue (tlv_nameValue d)), d, k)"
  by (simp add: tlv_value_def getOrCacheValue_cached)

lemma readValue_cached:
  "isCached (tlv_nameValue d) \<Longrightarrow>
     readValue n d k = (replicate n (Inr (cachedValue (tlv_nameValue d))), d, k)"
  by (induction n) (simp_all add: tlv_value_cached)

lemma readValue_fresh:
  "readValue (Suc n) (newTopLevelVariableDefinition prop) evaluations =
     (replicate (Suc n) (Inr (Some (computeValue prop))),
      \<lparr>tlv_property = prop,
       tlv_nameValue = \<lparr>isCached = True, cachedValue = Some (computeValue prop)\<rparr>\<rparr>,
      Suc evaluations)"
  by (simp add: tlv_value_fresh readValue_cached)

text \<open>
  Claim C3. On a cell that has not computed yet, a call whose closure returns \<open>v\<close> runs
  the closure once (the world after the call is the world the closure left), stores
  \<open>v\<close>, sets the flag and returns \<open>v\<close>. Every later call, whatever closure it is given
  and in whatever world, returns the stored \<open>v\<close> and leaves the cell and the world as
  they were: the closure it was given did not run. Consequently a new variable
  definition read any number of times (at least once) returns the same value at every
  read, and the counter of evaluations of the getter's closure has moved by exactly
  one.
\<close>

theorem getOrCacheValue_computes_once:
  assumes "\<not> isCached c" and "calculateValue w = (Inr v, w1)"
  shows "getOrCacheValue calculateValue c w =
           (Inr (Some v), c\<lparr>cachedValue := Some v, isCached := True\<rparr>, w1)
       \<and> (\<forall>other w'. getOrCacheValue other (c\<lparr>cachedValue := Some v, isCached := True\<rparr>) w' =
             (Inr (Some v), c\<lparr>cachedValue := Some v, isCached := True\<rparr>, w'))
       \<and> (\<forall>prop n evaluations.
             readValue (Suc n) (newTopLevelVariableDefinition prop) evaluations =
               (replicate (Suc n) (Inr (Some (computeValue prop))),
                \<lparr>tlv_property = prop,
                 tlv_nameValue = \<lparr>isCached = True, cachedValue = Some (computeValue prop)\<rparr>\<rparr>,
                Suc evaluations))"
  using assms
  by (simp add: getOrCacheValue_fresh_ok getOrCacheValue_cached readValue_fresh
      del: readValue.simps replicate.simps)

theorem getOrCacheValue_computes_once_witness:
  "\<not> isCached (newCachedValue :: int CachedValue)
   \<and> getOrCacheValue (\<lambda>n::nat. (Inr (7::int) :: unit + int, Suc n)) newCachedValue 0 =
       (Inr (Some 7), \<lparr>isCached = True, cachedValue = Some 7\<rparr>, 1)
   \<and> getOrCacheValue (\<lambda>n::nat. (Inr (8::int) :: unit + int, Suc n))
        \<lparr>isCached = True, cachedValue = Some 7\<rparr> 1 =
       (Inr (Some 7), \<lparr>isCached = True, cachedValue = Some 7\<rparr>, 1)
   \<and> readValue 3 (newTopLevelVariableDefinition doc_variable_string) 0 =
       ([Inr (Some (Some (StringValue (StringNode (Span 4 3) ''x'')))),
         Inr (Some (Some (StringValue (StringNode (Span 4 3) ''x'')))),
         Inr (Some (Some (StringValue (StringNode (Span 4 3) ''x''))))],
        \<lparr>tlv_property = doc_variable_string,
         tlv_nameValue =
           \<lparr>isCached = True,
            cachedValue = Some (Some (StringValue (StringNode (Span 4 3) ''x'')))\<rparr>\<rparr>,
        1)"
proof -
  have h1: "\<not> isCached (newCachedValue :: int CachedValue)"
    by (simp add: newCachedValue_def)
  have h2: "(Inr (7::int) :: unit + int, Suc 0) = (Inr 7, 1)"
    by simp
  note t = getOrCacheValue_computes_once
      [of newCachedValue "\<lambda>n::nat. (Inr (7::int) :: unit + int, Suc n)" 0 7 1, OF h1 h2]
  have first: "getOrCacheValue (\<lambda>n::nat. (Inr (7::int) :: unit + int, Suc n)) newCachedValue 0 =
      (Inr (Some 7), \<lparr>isCached = True, cachedValue = Some 7\<rparr>, 1)"
    using t [THEN conjunct1] by (simp add: newCachedValue_def)
  have second: "getOrCacheValue (\<lambda>n::nat. (Inr (8::int) :: unit + int, Suc n))
        \<lparr>isCached = True, cachedValue = Some 7\<rparr> 1 =
       (Inr (Some 7), \<lparr>isCached = True, cachedValue = Some 7\<rparr>, 1)"
    using t [THEN conjunct2, THEN conjunct1, rule_format,
        of "\<lambda>n::nat. (Inr (8::int) :: unit + int, Suc n)" 1]
    by (simp add: newCachedValue_def)
  have cv: "computeValue doc_variable_string = Some (StringValue (StringNode (Span 4 3) ''x''))"
    by code_simp
  have third: "readValue (Suc 2) (newTopLevelVariableDefinition doc_variable_string) 0 =
       ([Inr (Some (Some (StringValue (StringNode (Span 4 3) ''x'')))),
         Inr (Some (Some (StringValue (StringNode (Span 4 3) ''x'')))),
         Inr (Some (Some (StringValue (StringNode (Span 4 3) ''x''))))],
        \<lparr>tlv_property = doc_variable_string,
         tlv_nameValue =
           \<lparr>isCached = True,
            cachedValue = Some (Some (StringValue (StringNode (Span 4 3) ''x'')))\<rparr>\<rparr>,
        1)"
    using t [THEN conjunct2, THEN conjunct2, rule_format, of 2 doc_variable_string 0]
    by (simp only: cv) (simp add: numeral_2_eq_2)
  have three: "(3::nat) = Suc 2"
    by simp
  show ?thesis using h1 first second third by (simp only: three) simp
qed

text \<open>
  Claim C4. On a cell that has not computed yet, a call whose closure throws \<open>e\<close> hands
  \<open>e\<close> to the caller and returns the cell exactly as it was: the flag is still false
  and no value is stored. The next call therefore runs the closure it is given, and
  caches its result if it returns one.
\<close>

theorem getOrCacheValue_failure_not_cached:
  assumes "\<not> isCached c" and "calculateValue w = (Inl e, w1)"
  shows "getOrCacheValue calculateValue c w = (Inl e, c, w1)
       \<and> (\<forall>again. getOrCacheValue again c w1 =
             (case again w1 of
                (Inl e', w2) \<Rightarrow> (Inl e', c, w2)
              | (Inr v, w2) \<Rightarrow> (Inr (Some v), c\<lparr>cachedValue := Some v, isCached := True\<rparr>, w2)))"
  using assms by (auto simp add: getOrCacheValue_def split: prod.splits sum.splits)

theorem getOrCacheValue_failure_not_cached_witness:
  "\<not> isCached (newCachedValue :: int CachedValue)
   \<and> getOrCacheValue (\<lambda>n::nat. (Inl ''boom'' :: string + int, Suc n)) newCachedValue 0 =
       (Inl ''boom'', newCachedValue, 1)
   \<and> getOrCacheValue (\<lambda>n::nat. (Inr 7 :: string + int, Suc n)) newCachedValue 1 =
       (Inr (Some 7), \<lparr>isCached = True, cachedValue = Some 7\<rparr>, 2)"
proof -
  have h1: "\<not> isCached (newCachedValue :: int CachedValue)"
    by (simp add: newCachedValue_def)
  have h2: "(Inl ''boom'' :: string + int, Suc 0) = (Inl ''boom'', 1)"
    by simp
  note t = getOrCacheValue_failure_not_cached
      [of newCachedValue "\<lambda>n::nat. (Inl ''boom'' :: string + int, Suc n)" 0 "''boom''" 1, OF h1 h2]
  have first: "getOrCacheValue (\<lambda>n::nat. (Inl ''boom'' :: string + int, Suc n)) newCachedValue 0 =
       (Inl ''boom'', newCachedValue, 1)"
    using t [THEN conjunct1] .
  have second: "getOrCacheValue (\<lambda>n::nat. (Inr 7 :: string + int, Suc n)) newCachedValue 1 =
       (Inr (Some 7), \<lparr>isCached = True, cachedValue = Some 7\<rparr>, 2)"
    using t [THEN conjunct2, rule_format, of "\<lambda>n::nat. (Inr 7 :: string + int, Suc n)"]
    by (simp add: newCachedValue_def)
  show ?thesis using h1 first second by simp
qed

section \<open>The copy-block factory\<close>

text \<open>
  The factory tests the object and its \<open>name\<close> only. For \<^verbatim>\<open>{"name":"x"}\<close>, which has no
  \<open>input\<close>, it returns a definition whose value is \<^verbatim>\<open>null\<close>, where claim C1 has it
  return nothing.
\<close>

theorem createIfValid_counterexample:
  "getPropertyValue doc_name_only templateKeys_loopVarInput = None
   \<and> createIfValid doc_name_only =
       Some \<lparr>cbv_copyVariableObject = doc_name_only,
             cbv_nameValue = StringNode (Span 8 3) ''x'',
             cbv_value = None\<rparr>"
  by code_simp

text \<open>
  Claim C1, amended. \<open>createIfValid v\<close> returns a definition if and only if \<open>v\<close> is a
  JSON object with a string-valued \<open>name\<close> property; in every other case it returns
  \<^verbatim>\<open>undefined\<close>, and it never throws. The definition returned holds \<open>v\<close> and that
  name; its value is the one-element array around the \<open>input\<close> value, with the span
  of \<open>input\<close>, when \<open>input\<close> is present, and \<^verbatim>\<open>null\<close> when it is not.
\<close>

theorem createIfValid_iff_object_with_name:
  "(createIfValid v \<noteq> None) =
     ((\<exists>s ps. v = ObjectValue s ps)
      \<and> asStringValue (getPropertyValue v templateKeys_loopVarName) \<noteq> None)
   \<and> (\<forall>d. createIfValid v = Some d \<longrightarrow>
          cbv_copyVariableObject d = v
          \<and> asStringValue (getPropertyValue v templateKeys_loopVarName) = Some (cbv_nameValue d)
          \<and> cbv_value d =
              (case getPropertyValue v templateKeys_loopVarInput of
                 Some i \<Rightarrow> Some (ArrayValue (span i) [i])
               | None \<Rightarrow> None))"
proof (cases v)
  case (ObjectValue s ps)
  then show ?thesis
    by (auto simp add: createIfValid_def newTopLevelCopyBlockVariableDefinition_def
        split: option.splits)
qed (simp_all add: createIfValid_def)

theorem createIfValid_iff_object_with_name_witness:
  "createIfValid doc_name_input \<noteq> None
   \<and> createIfValid doc_name_only \<noteq> None
   \<and> createIfValid doc_input_only = None
   \<and> createIfValid doc_string = None"
proof -
  note t = createIfValid_iff_object_with_name [THEN conjunct1]
  have o1: "\<exists>s ps. doc_name_input = ObjectValue s ps" by (simp add: doc_name_input_def)
  have n1: "asStringValue (getPropertyValue doc_name_input templateKeys_loopVarName) \<noteq> None"
    by code_simp
  have o2: "\<exists>s ps. doc_name_only = ObjectValue s ps" by (simp add: doc_name_only_def)
  have n2: "asStringValue (getPropertyValue doc_name_only templateKeys_loopVarName) \<noteq> None"
    by code_simp
  have n3: "asStringValue (getPropertyValue doc_input_only templateKeys_loopVarName) = None"
    by code_simp
  have o4: "\<not> (\<exists>s ps. doc_string = ObjectValue s ps)" by (simp add: doc_string_def)
  have "createIfValid doc_name_input \<noteq> None" using t [of doc_name_input] o1 n1 by simp
  moreover have "createIfValid doc_name_only \<noteq> None" using t [of doc_name_only] o2 n2 by simp
  moreover have "createIfValid doc_input_only = None" using t [of doc_input_only] n3 by simp
  moreover have "createIfValid doc_string = None" using t [of doc_string] o4 by simp
  ultimately show ?thesis by simp
qed

section \<open>Copy-block expansion\<close>

lemma addLoopVars_step:
  "addLoopVars (e # es) mm = addLoopVars es (mm @ spec_synthesizedMembers e)"
  by (cases e)
     (simp_all add: spec_synthesizedMembers_def templateKeys_loopVarName_def
        templateKeys_loopVarInput_def split: option.splits)

lemma addLoopVars_eq:
  "addLoopVars es mm = mm @ concat (map spec_synthesizedMembers es)"
  by (induction es arbitrary: mm) (simp_all only: addLoopVars.simps(1) addLoopVars_step, simp_all)

lemma computeValue_expand:
  assumes "propertyValue prop = Some (ObjectValue s ps)"
    and "getPropertyValue (ObjectValue s ps) templateKeys_copy = Some (ArrayValue sa es)"
  shows "computeValue prop =
           Some (ObjectValue s
             (filter (\<lambda>p. \<not> isCopyMember p) ps @ concat (map spec_synthesizedMembers es)))"
  using assms
  by (simp add: computeValue_def addLoopVars_eq isCopyMember_def templateKeys_copy_def)

lemma computeValue_passthrough:
  assumes "\<not> (\<exists>obj arr. asObjectValue (propertyValue prop) = Some obj
              \<and> asArrayValue (getPropertyValue obj templateKeys_copy) = Some arr)"
  shows "computeValue prop = propertyValue prop"
  using assms by (auto simp add: computeValue_def Let_def split: option.splits)

text \<open>
  Claim C2. Let the wrapped value be an object in which the lookup of \<open>copy\<close> gives an
  array. The getter then returns a new object, with the span of the wrapped one, whose
  members are: first the members of the wrapped object whose name is not \<open>copy\<close>
  (case-insensitively), in their original order; then, for each element of the copy
  array in order that is an object with a string \<open>name\<close> and an \<open>input\<close>, one property
  with that name whose value is the one-element array holding the \<open>input\<close> value as it
  is.
\<close>

theorem value_expands_copy_block:
  assumes "propertyValue prop = Some (ObjectValue s ps)"
    and "getPropertyValue (ObjectValue s ps) templateKeys_copy = Some (ArrayValue sa es)"
  shows "fst (tlv_value (newTopLevelVariableDefinition prop) evaluations) =
           Inr (Some (Some (ObjectValue s
             (filter (\<lambda>p. \<not> isCopyMember p) ps @ concat (map spec_synthesizedMembers es)))))"
  using assms by (simp add: tlv_value_fresh computeValue_expand)

theorem value_expands_copy_block_witness:
  "fst (tlv_value (newTopLevelVariableDefinition doc_variable) 0) =
     Inr (Some (Some (ObjectValue (Span 4 59)
       [Property (Span 53 9) (StringNode (Span 53 7) ''other'')
          (Some (NumberValue (Span 61 1) ''1'')),
        Property (Span 47 3) (StringNode (Span 21 7) ''disks'')
          (Some (ArrayValue (Span 47 3) [StringValue (StringNode (Span 47 3) ''X'')]))])))"
proof -
  let ?ps = "[Property (Span 5 47) (StringNode (Span 5 6) ''copy'')
                (Some (ArrayValue (Span 12 40) [doc_disks_loop])),
              Property (Span 53 9) (StringNode (Span 53 7) ''other'')
                (Some (NumberValue (Span 61 1) ''1''))]"
  have h1: "propertyValue doc_variable = Some (ObjectValue (Span 4 59) ?ps)"
    by (simp add: doc_variable_def)
  have h2: "getPropertyValue (ObjectValue (Span 4 59) ?ps) templateKeys_copy =
      Some (ArrayValue (Span 12 40) [doc_disks_loop])"
    by code_simp
  have members: "filter (\<lambda>p. \<not> isCopyMember p) ?ps
        @ concat (map spec_synthesizedMembers [doc_disks_loop]) =
      [Property (Span 53 9) (StringNode (Span 53 7) ''other'')
          (Some (NumberValue (Span 61 1) ''1'')),
        Property (Span 47 3) (StringNode (Span 21 7) ''disks'')
          (Some (ArrayValue (Span 47 3) [StringValue (StringNode (Span 47 3) ''X'')]))]"
    by code_simp
  show ?thesis
    using value_expands_copy_block [OF h1 h2, of 0] by (simp only: members)
qed

text \<open>
  Claim C5. When the wrapped value is not an object in which the lookup of \<open>copy\<close>
  gives an array (it is missing or not an object, or the object has no \<open>copy\<close>, or its
  \<open>copy\<close> is not an array), the getter returns the wrapped value itself: the closure
  hands back the value it read from the property and constructs nothing.
\<close>

theorem value_without_copy_array_is_unchanged:
  assumes "\<not> (\<exists>obj arr. asObjectValue (propertyValue prop) = Some obj
              \<and> asArrayValue (getPropertyValue obj templateKeys_copy) = Some arr)"
  shows "computeValue prop = propertyValue prop
       \<and> fst (tlv_value (newTopLevelVariableDefinition prop) evaluations) =
           Inr (Some (propertyValue prop))"
  using assms by (simp add: tlv_value_fresh computeValue_passthrough)

theorem value_without_copy_array_is_unchanged_witness:
  "fst (tlv_value (newTopLevelVariableDefinition doc_variable_string) 0) =
     Inr (Some (Some (StringValue (StringNode (Span 4 3) ''x''))))
   \<and> fst (tlv_value (newTopLevelVariableDefinition doc_variable_no_copy) 0) =
     Inr (Some (propertyValue doc_variable_no_copy))
   \<and> fst (tlv_value (newTopLevelVariableDefinition doc_variable_copy_number) 0) =
     Inr (Some (propertyValue doc_variable_copy_number))"
proof -
  have h1: "\<not> (\<exists>obj arr. asObjectValue (propertyValue doc_variable_string) = Some obj
              \<and> asArrayValue (getPropertyValue obj templateKeys_copy) = Some arr)"
    by (simp add: doc_variable_string_def)
  have a2: "asObjectValue (propertyValue doc_variable_no_copy) = propertyValue doc_variable_no_copy"
    by (simp add: doc_variable_no_copy_def)
  have b2: "asArrayValue (getPropertyValue (the (propertyValue doc_variable_no_copy)) templateKeys_copy) = None"
    by code_simp
  have h2: "\<not> (\<exists>obj arr. asObjectValue (propertyValue doc_variable_no_copy) = Some obj
              \<and> asArrayValue (getPropertyValue obj templateKeys_copy) = Some arr)"
    using a2 b2 by auto
  have a3: "asObjectValue (propertyValue doc_variable_copy_number) = propertyValue doc_variable_copy_number"
    by (simp add: doc_variable_copy_number_def)
  have b3: "asArrayValue (getPropertyValue (the (propertyValue doc_variable_copy_number)) templateKeys_copy) = None"
    by code_simp
  have h3: "\<not> (\<exists>obj arr. asObjectValue (propertyValue doc_variable_copy_number) = Some obj
              \<and> asArrayValue (getPropertyValue obj templateKeys_copy) = Some arr)"
    using a3 b3 by auto
  have v1: "propertyValue doc_variable_string = Some (StringValue (StringNode (Span 4 3) ''x''))"
    by (simp add: doc_variable_string_def)
  show ?thesis
    using value_without_copy_array_is_unchanged [OF h1, of 0]
      value_without_copy_array_is_unchanged [OF h2, of 0]
      value_without_copy_array_is_unchanged [OF h3, of 0] v1
    by simp
qed

text \<open>
  Claim C6. An element of the copy array that is not an object, or has no string
  \<open>name\<close>, or has no \<open>input\<close>, adds no member: the loop over the array gives the same
  members with or without it, wherever it stands, so the elements before and after it
  are processed as if it were not there. The loop is a total function with no failing
  branch.
\<close>

theorem invalid_loop_element_is_skipped:
  assumes "asObjectValue (Some e) = None
         \<or> asStringValue (getPropertyValue e templateKeys_loopVarName) = None
         \<or> getPropertyValue e templateKeys_loopVarInput = None"
  shows "addLoopVars (before @ e # after) modifiedMembers =
           addLoopVars (before @ after) modifiedMembers"
proof -
  have "spec_synthesizedMembers e = []"
    using assms
    by (cases e)
       (auto simp add: spec_synthesizedMembers_def templateKeys_loopVarName_def
          templateKeys_loopVarInput_def split: option.splits)
  then show ?thesis by (simp add: addLoopVars_eq)
qed

theorem invalid_loop_element_is_skipped_witness:
  "addLoopVars [doc_string, doc_input_only, doc_name_only, doc_disks_loop] [] =
     addLoopVars [doc_disks_loop] []
   \<and> addLoopVars [doc_disks_loop] [] =
       [Property (Span 47 3) (StringNode (Span 21 7) ''disks'')
          (Some (ArrayValue (Span 47 3) [StringValue (StringNode (Span 47 3) ''X'')]))]"
proof -
  have h1: "asObjectValue (Some doc_string) = None
         \<or> asStringValue (getPropertyValue doc_string templateKeys_loopVarName) = None
         \<or> getPropertyValue doc_string templateKeys_loopVarInput = None"
    by (simp add: doc_string_def)
  have n2: "asStringValue (getPropertyValue doc_input_only templateKeys_loopVarName) = None"
    by code_simp
  have i3: "getPropertyValue doc_name_only templateKeys_loopVarInput = None"
    by code_simp
  have s1: "addLoopVars [doc_string, doc_input_only, doc_name_only, doc_disks_loop] [] =
      addLoopVars [doc_input_only, doc_name_only, doc_disks_loop] []"
    using invalid_loop_element_is_skipped [OF h1, of "[]"] by simp
  have s2: "addLoopVars [doc_input_only, doc_name_only, doc_disks_loop] [] =
      addLoopVars [doc_name_only, doc_disks_loop] []"
    using invalid_loop_element_is_skipped [of doc_input_only "[]"] n2 by simp
  have s3: "addLoopVars [doc_name_only, doc_disks_loop] [] = addLoopVars [doc_disks_loop] []"
    using invalid_loop_element_is_skipped [of doc_name_only "[]"] i3 by simp
  have r: "addLoopVars [doc_disks_loop] [] =
       [Property (Span 47 3) (StringNode (Span 21 7) ''disks'')
          (Some (ArrayValue (Span 47 3) [StringValue (StringNode (Span 47 3) ''X'')]))]"
    by code_simp
  show ?thesis using s1 s2 s3 r by simp
qed

section \<open>Spans of the expanded value\<close>

lemma findProperty_mem: "findProperty key ps = Some p \<Longrightarrow> p \<in> set ps"
  by (induction ps) (auto split: option.splits if_splits)

lemma getPropertyValue_mem:
  "getPropertyValue obj key = Some v \<Longrightarrow> \<exists>p\<in>set (properties obj). propertyValue p = Some v"
  by (auto simp add: getPropertyValue_def split: option.splits dest: findProperty_mem)

lemma span_in_allSpans: "span v \<in> set (allSpans v)"
  by (cases v) simp_all

lemma allSpans_property_value:
  "propertyValue p = Some v \<Longrightarrow> set (allSpans v) \<subseteq> set (propertySpans p)"
  by (cases p) auto

lemma propertySpans_member:
  "p \<in> set ps \<Longrightarrow> set (propertySpans p) \<subseteq> set (allSpans (ObjectValue s ps))"
  by auto

lemma allSpans_element:
  "e \<in> set es \<Longrightarrow> set (allSpans e) \<subseteq> set (allSpans (ArrayValue s es))"
  by auto

lemma allSpans_lookup:
  assumes "getPropertyValue (ObjectValue s ps) key = Some v"
  shows "set (allSpans v) \<subseteq> set (allSpans (ObjectValue s ps))"
proof -
  obtain p where p: "p \<in> set ps" "propertyValue p = Some v"
    using getPropertyValue_mem [OF assms] by auto
  show ?thesis
    using allSpans_property_value [OF p(2)] propertySpans_member [OF p(1), of s] by blast
qed

lemma synthesized_cases:
  assumes "m \<in> set (spec_synthesizedMembers e)"
  shows "\<exists>n i. asObjectValue (Some e) = Some e
           \<and> asStringValue (getPropertyValue e templateKeys_loopVarName) = Some n
           \<and> getPropertyValue e templateKeys_loopVarInput = Some i
           \<and> m = Property (span i) n (Some (ArrayValue (span i) [i]))"
  using assms
  by (cases e)
     (auto simp add: spec_synthesizedMembers_def templateKeys_loopVarName_def
        templateKeys_loopVarInput_def split: option.splits)

lemma asStringValue_Some: "asStringValue x = Some n \<Longrightarrow> x = Some (StringValue n)"
  by (cases x rule: asStringValue.cases) simp_all

lemma synthesized_spans:
  assumes "m \<in> set (spec_synthesizedMembers e)"
  shows "set (propertySpans m) \<subseteq> set (allSpans e)"
proof -
  obtain n i where e: "asObjectValue (Some e) = Some e"
    and n: "asStringValue (getPropertyValue e templateKeys_loopVarName) = Some n"
    and i: "getPropertyValue e templateKeys_loopVarInput = Some i"
    and m: "m = Property (span i) n (Some (ArrayValue (span i) [i]))"
    using synthesized_cases [OF assms] by blast
  obtain s ps where obj: "e = ObjectValue s ps"
    using e by (cases e) simp_all
  have n': "getPropertyValue e templateKeys_loopVarName = Some (StringValue n)"
    using n by (rule asStringValue_Some)
  have "set (allSpans i) \<subseteq> set (allSpans e)"
    using i allSpans_lookup unfolding obj by blast
  moreover have "set (allSpans (StringValue n)) \<subseteq> set (allSpans e)"
    using n' allSpans_lookup unfolding obj by blast
  moreover have "span i \<in> set (allSpans i)"
    by (rule span_in_allSpans)
  ultimately show ?thesis
    unfolding m by auto
qed

text \<open>
  Claim C10. In the expanded value, the enclosing object has the span of the wrapped
  object. Each of its members is either a member of the wrapped object or a
  synthesized property for a loop element with name \<open>n\<close> and input \<open>i\<close>; the synthesized
  property and the array in it both have the span of \<open>i\<close>, and the array holds \<open>i\<close>
  itself. Hence every span found anywhere in the expanded value is a span of a node of
  the wrapped object. The array that the copy-block definition builds from an \<open>input\<close>
  has the span of that \<open>input\<close> as well.
\<close>

theorem expansion_spans_come_from_source:
  assumes "propertyValue prop = Some (ObjectValue s ps)"
    and "getPropertyValue (ObjectValue s ps) templateKeys_copy = Some (ArrayValue sa es)"
  shows "\<exists>ms. computeValue prop = Some (ObjectValue s ms)
          \<and> (\<forall>m\<in>set ms. m \<in> set ps
                \<or> (\<exists>e\<in>set es. \<exists>n i.
                      asStringValue (getPropertyValue e templateKeys_loopVarName) = Some n
                      \<and> getPropertyValue e templateKeys_loopVarInput = Some i
                      \<and> m = Property (span i) n (Some (ArrayValue (span i) [i]))))
          \<and> set (allSpans (ObjectValue s ms)) \<subseteq> set (allSpans (ObjectValue s ps))
          \<and> (\<forall>obj n i. cbv_value (newTopLevelCopyBlockVariableDefinition obj n (Some i)) =
                Some (ArrayValue (span i) [i]))"
proof -
  let ?ms = "filter (\<lambda>p. \<not> isCopyMember p) ps @ concat (map spec_synthesizedMembers es)"
  have cv: "computeValue prop = Some (ObjectValue s ?ms)"
    using assms by (rule computeValue_expand)
  have shape: "\<forall>m\<in>set ?ms. m \<in> set ps
                \<or> (\<exists>e\<in>set es. \<exists>n i.
                      asStringValue (getPropertyValue e templateKeys_loopVarName) = Some n
                      \<and> getPropertyValue e templateKeys_loopVarInput = Some i
                      \<and> m = Property (span i) n (Some (ArrayValue (span i) [i])))"
  proof
    fix m assume "m \<in> set ?ms"
    then consider "m \<in> set ps" | e where "e \<in> set es" "m \<in> set (spec_synthesizedMembers e)"
      by auto
    then show "m \<in> set ps
                \<or> (\<exists>e\<in>set es. \<exists>n i.
                      asStringValue (getPropertyValue e templateKeys_loopVarName) = Some n
                      \<and> getPropertyValue e templateKeys_loopVarInput = Some i
                      \<and> m = Property (span i) n (Some (ArrayValue (span i) [i])))"
    proof cases
      case 1
      then show ?thesis by simp
    next
      case 2
      then show ?thesis using synthesized_cases [OF 2(2)] by blast
    qed
  qed
  have arr: "set (allSpans (ArrayValue sa es)) \<subseteq> set (allSpans (ObjectValue s ps))"
    using assms(2) by (rule allSpans_lookup)
  have each: "set (propertySpans m) \<subseteq> set (allSpans (ObjectValue s ps))" if "m \<in> set ?ms" for m
  proof -
    from that consider "m \<in> set ps" | e where "e \<in> set es" "m \<in> set (spec_synthesizedMembers e)"
      by auto
    then show ?thesis
    proof cases
      case 1
      then show ?thesis by (rule propertySpans_member)
    next
      case 2
      have "set (propertySpans m) \<subseteq> set (allSpans e)"
        using 2(2) by (rule synthesized_spans)
      also have "\<dots> \<subseteq> set (allSpans (ArrayValue sa es))"
        using 2(1) by (rule allSpans_element)
      finally show ?thesis using arr by blast
    qed
  qed
  have spans: "set (allSpans (ObjectValue s ?ms)) \<subseteq> set (allSpans (ObjectValue s ps))"
  proof
    fix x assume "x \<in> set (allSpans (ObjectValue s ?ms))"
    then consider "x = s" | m where "m \<in> set ?ms" "x \<in> set (propertySpans m)"
      by auto
    then show "x \<in> set (allSpans (ObjectValue s ps))"
    proof cases
      case 1
      then show ?thesis by simp
    next
      case 2
      then show ?thesis using each by blast
    qed
  qed
  have ctor: "\<forall>obj n i. cbv_value (newTopLevelCopyBlockVariableDefinition obj n (Some i)) =
                Some (ArrayValue (span i) [i])"
    by (simp add: newTopLevelCopyBlockVariableDefinition_def)
  show ?thesis using cv shape spans ctor by blast
qed

theorem expansion_spans_come_from_source_witness:
  "computeValue doc_variable =
     Some (ObjectValue (Span 4 59)
       [Property (Span 53 9) (StringNode (Span 53 7) ''other'')
          (Some (NumberValue (Span 61 1) ''1'')),
        Property (Span 47 3) (StringNode (Span 21 7) ''disks'')
          (Some (ArrayValue (Span 47 3) [StringValue (StringNode (Span 47 3) ''X'')]))])
   \<and> set (allSpans (ObjectValue (Span 4 59)
       [Property (Span 53 9) (StringNode (Span 53 7) ''other'')
          (Some (NumberValue (Span 61 1) ''1'')),
        Property (Span 47 3) (StringNode (Span 21 7) ''disks'')
          (Some (ArrayValue (Span 47 3) [StringValue (StringNode (Span 47 3) ''X'')]))]))
     \<subseteq> set (allSpans (ObjectValue (Span 4 59)
       [Property (Span 5 47) (StringNode (Span 5 6) ''copy'')
          (Some (ArrayValue (Span 12 40) [doc_disks_loop])),
        Property (Span 53 9) (StringNode (Span 53 7) ''other'')
          (Some (NumberValue (Span 61 1) ''1''))]))"
proof -
  let ?ps = "[Property (Span 5 47) (StringNode (Span 5 6) ''copy'')
                (Some (ArrayValue (Span 12 40) [doc_disks_loop])),
              Property (Span 53 9) (StringNode (Span 53 7) ''other'')
                (Some (NumberValue (Span 61 1) ''1''))]"
  have h1: "propertyValue doc_variable = Some (ObjectValue (Span 4 59) ?ps)"
    by (simp add: doc_variable_def)
  have h2: "getPropertyValue (ObjectValue (Span 4 59) ?ps) templateKeys_copy =
      Some (ArrayValue (Span 12 40) [doc_disks_loop])"
    by code_simp
  obtain ms where ms: "computeValue doc_variable = Some (ObjectValue (Span 4 59) ms)"
    and sub: "set (allSpans (ObjectValue (Span 4 59) ms))
                \<subseteq> set (allSpans (ObjectValue (Span 4 59) ?ps))"
    using expansion_spans_come_from_source [OF h1 h2] by blast
  have cv: "computeValue doc_variable =
     Some (ObjectValue (Span 4 59)
       [Property (Span 53 9) (StringNode (Span 53 7) ''other'')
          (Some (NumberValue (Span 61 1) ''1'')),
        Property (Span 47 3) (StringNode (Span 21 7) ''disks'')
          (Some (ArrayValue (Span 47 3) [StringValue (StringNode (Span 47 3) ''X'')]))])"
    by code_simp
  have "ms = [Property (Span 53 9) (StringNode (Span 53 7) ''other'')
          (Some (NumberValue (Span 61 1) ''1'')),
        Property (Span 47 3) (StringNode (Span 21 7) ''disks'')
          (Some (ArrayValue (Span 47 3) [StringValue (StringNode (Span 47 3) ''X'')]))]"
    using ms cv by simp
  then show ?thesis using cv sub by simp
qed

section \<open>Hover texts\<close>

lemma join_prefixed:
  "xs \<noteq> [] \<Longrightarrow> sep @ join sep xs = concat (map (\<lambda>x. sep @ x) xs)"
  by (induction sep xs rule: join.induct) simp_all

lemma toLowerCase_Nil_iff: "toLowerCase t = [] \<longleftrightarrow> t = []"
  by (simp add: toLowerCase_def)

lemma getParamUsage_spec:
  assumes "\<And>t. t \<noteq> [] \<Longrightarrow> lowerCase t \<noteq> []"
  shows "getParamUsage lowerCase pd = spec_paramUsage lowerCase pd"
  using assms
  by (cases "pd_type pd" rule: asStringValue.cases)
     (simp_all add: getParamUsage_def spec_paramUsage_def)

text \<open>
  For a namespace whose name is the empty string the code writes no \<open>.\<close> either, and
  for a parameter whose \<open>type\<close> is the empty string it writes the bare name, where claim
  C7 has \<open>.k()\<close> and \<open>h(a [])\<close>. Nothing is lower-cased at these two inputs: \<open>k\<close> has no
  parameters and the type of the parameter of \<open>h\<close> is empty.
\<close>

theorem getUsage_counterexample:
  "getUsage toLowerCase (Some namespace_unnamed) fun_k = ''k()''
   \<and> getUsage toLowerCase (Some namespace_unnamed) fun_k \<noteq>
       unquotedValue (namespaceName namespace_unnamed) @ ''.'' @ ''k()''
   \<and> getUsage toLowerCase None fun_h = ''h(a)''
   \<and> getUsage toLowerCase None fun_h \<noteq> ''h(a [])''"
  by code_simp

text \<open>
  Claim C7, amended. \<open>getUsage\<close> returns the namespace prefix, the function name and
  the parenthesised parameters joined by a comma and a space. The prefix is the
  namespace name followed by \<open>.\<close>, and it is omitted when the namespace is absent or its
  name is the empty string. A parameter is its bare name, or the name followed by the
  lower-cased type in brackets when it has a string-valued \<open>type\<close> that is not empty.
  This holds for every lower-casing \<open>lowerCase\<close> that gives a non-empty text for a
  non-empty one, as that of the host language does.
\<close>

theorem getUsage_format:
  assumes "\<forall>t. t \<noteq> [] \<longrightarrow> lowerCase t \<noteq> []"
  shows "getUsage lowerCase namespace func =
     (case namespace of
        None \<Rightarrow> []
      | Some n \<Rightarrow>
          if unquotedValue (namespaceName n) = [] then []
          else unquotedValue (namespaceName n) @ ''.'') @
     unquotedValue (fd_name func) @ ''('' @
     join '', '' (map (spec_paramUsage lowerCase) (parameterDefinitions func)) @ '')''"
proof -
  have "getParamUsage lowerCase = spec_paramUsage lowerCase"
    using assms by (intro ext getParamUsage_spec) simp
  then show ?thesis
    by (simp add: getUsage_def split: option.splits)
qed

theorem getUsage_format_witness:
  "getUsage toLowerCase (Some namespace_ns) fun_f = ''ns.f(a, b [string])''
   \<and> getUsage toLowerCase None fun_f = ''f(a, b [string])''
   \<and> getUsage toLowerCase None fun_g = ''g(p [securestring])''"
proof -
  have lc: "\<forall>t. t \<noteq> [] \<longrightarrow> toLowerCase t \<noteq> []"
    by (simp add: toLowerCase_Nil_iff)
  have a: "(case Some namespace_ns of
        None \<Rightarrow> []
      | Some n \<Rightarrow>
          if unquotedValue (namespaceName n) = [] then []
          else unquotedValue (namespaceName n) @ ''.'') @
     unquotedValue (fd_name fun_f) @ ''('' @
     join '', '' (map (spec_paramUsage toLowerCase) (parameterDefinitions fun_f)) @ '')'' = ''ns.f(a, b [string])''"
    by code_simp
  have b: "(case None :: UserFunctionNamespaceDefinition option of
        None \<Rightarrow> []
      | Some n \<Rightarrow>
          if unquotedValue (namespaceName n) = [] then []
          else unquotedValue (namespaceName n) @ ''.'') @
     unquotedValue (fd_name fun_f) @ ''('' @
     join '', '' (map (spec_paramUsage toLowerCase) (parameterDefinitions fun_f)) @ '')'' = ''f(a, b [string])''"
    by code_simp
  have c: "(case None :: UserFunctionNamespaceDefinition option of
        None \<Rightarrow> []
      | Some n \<Rightarrow>
          if unquotedValue (namespaceName n) = [] then []
          else unquotedValue (namespaceName n) @ ''.'') @
     unquotedValue (fd_name fun_g) @ ''('' @
     join '', '' (map (spec_paramUsage toLowerCase) (parameterDefinitions fun_g)) @ '')'' = ''g(p [securestring])''"
    by code_simp
  show ?thesis
    using getUsage_format [of toLowerCase "Some namespace_ns" fun_f, OF lc]
      getUsage_format [of toLowerCase None fun_f, OF lc]
      getUsage_format [of toLowerCase None fun_g, OF lc] a b c
    by (simp only:)
qed

text \<open>
  Claim C8. The hover text of a namespace is the bolded name and
  \<open>User-defined namespace\<close>; then, on a new line, \<open>No members\<close> when the namespace has no
  members, and otherwise \<open>Members:\<close> followed by one new line per member, in the order of
  the members, made of \<open>* \<close> and the usage of the member computed without a namespace.
\<close>

theorem namespace_hover_text:
  "UserNamespaceInfo_getHoverText lowerCase i =
     ''**'' @ unquotedValue (namespaceName (uni_namespace i)) @ ''** User-defined namespace'' @
       (if members (uni_namespace i) = []
        then newline @ ''No members''
        else newline @ ''Members:'' @
             concat (map (\<lambda>md. newline @ ''* '' @ getUsage lowerCase None md)
               (members (uni_namespace i))))"
proof (cases "members (uni_namespace i) = []")
  case True
  then show ?thesis by (simp add: UserNamespaceInfo_getHoverText_def)
next
  case False
  then have ne: "map (\<lambda>mu. ''* '' @ mu)
      (map (getUsage lowerCase None) (members (uni_namespace i))) \<noteq> []"
    by simp
  show ?thesis
    using False join_prefixed [OF ne, of newline]
    by (simp add: UserNamespaceInfo_getHoverText_def Let_def comp_def)
qed

theorem namespace_hover_text_witness:
  "UserNamespaceInfo_getHoverText toLowerCase
     \<lparr>uni_namespace = namespace_no_members, uni_span = Span 14 4\<rparr> =
     ''**ns** User-defined namespace'' @ newline @ ''No members''
   \<and> UserNamespaceInfo_getHoverText toLowerCase
     \<lparr>uni_namespace = namespace_ns, uni_span = Span 14 4\<rparr> =
     ''**ns** User-defined namespace'' @ newline @ ''Members:'' @ newline @
     ''* f(a, b [string])'' @ newline @ ''* g(p [securestring])''"
proof -
  let ?i0 = "\<lparr>uni_namespace = namespace_no_members, uni_span = Span 14 4\<rparr>"
  let ?i2 = "\<lparr>uni_namespace = namespace_ns, uni_span = Span 14 4\<rparr>"
  have a: "''**'' @ unquotedValue (namespaceName (uni_namespace ?i0)) @ ''** User-defined namespace'' @
       (if members (uni_namespace ?i0) = []
        then newline @ ''No members''
        else newline @ ''Members:'' @
             concat (map (\<lambda>md. newline @ ''* '' @ getUsage toLowerCase None md)
               (members (uni_namespace ?i0))))
      = ''**ns** User-defined namespace'' @ newline @ ''No members''"
    by code_simp
  have b: "''**'' @ unquotedValue (namespaceName (uni_namespace ?i2)) @ ''** User-defined namespace'' @
       (if members (uni_namespace ?i2) = []
        then newline @ ''No members''
        else newline @ ''Members:'' @
             concat (map (\<lambda>md. newline @ ''* '' @ getUsage toLowerCase None md)
               (members (uni_namespace ?i2))))
      = ''**ns** User-defined namespace'' @ newline @ ''Members:'' @ newline @
     ''* f(a, b [string])'' @ newline @ ''* g(p [securestring])''"
    by code_simp
  show ?thesis
    using namespace_hover_text [of toLowerCase ?i0] namespace_hover_text [of toLowerCase ?i2] a b
    by (simp only:)
qed

text \<open>
  Claim C9. With a description that is absent or empty, the hover text of a
  \<open>FunctionInfo\<close> is exactly the bolded usage, and that of a \<open>ParameterReferenceInfo\<close>
  exactly the bolded name followed by \<open>(parameter)\<close>: nothing comes after it, no line
  feed either. With a non-empty description, a line feed and the description follow.
\<close>

theorem hover_text_description:
  "(fi_description fi = None \<or> fi_description fi = Some [] \<longrightarrow>
      FunctionInfo_getHoverText fi = ''**'' @ fi_usage fi @ ''**'')
   \<and> (\<forall>d. fi_description fi = Some d \<and> d \<noteq> [] \<longrightarrow>
      FunctionInfo_getHoverText fi = ''**'' @ fi_usage fi @ ''**'' @ newline @ d)
   \<and> (pri_description pri = None \<or> pri_description pri = Some [] \<longrightarrow>
      ParameterReferenceInfo_getHoverText pri = ''**'' @ pri_name pri @ ''** (parameter)'')
   \<and> (\<forall>d. pri_description pri = Some d \<and> d \<noteq> [] \<longrightarrow>
      ParameterReferenceInfo_getHoverText pri =
        ''**'' @ pri_name pri @ ''** (parameter)'' @ newline @ d)"
  by (auto simp add: FunctionInfo_getHoverText_def ParameterReferenceInfo_getHoverText_def)

theorem hover_text_description_witness:
  "FunctionInfo_getHoverText
     \<lparr>fi_name = ''add'', fi_usage = ''add(a, b)'', fi_description = None, fi_span = Span 3 3\<rparr> =
       ''**add(a, b)**''
   \<and> FunctionInfo_getHoverText
     \<lparr>fi_name = ''add'', fi_usage = ''add(a, b)'', fi_description = Some [], fi_span = Span 3 3\<rparr> =
       ''**add(a, b)**''
   \<and> FunctionInfo_getHoverText
     \<lparr>fi_name = ''add'', fi_usage = ''add(a, b)'', fi_description = Some ''Sum.'',
      fi_span = Span 3 3\<rparr> = ''**add(a, b)**'' @ newline @ ''Sum.''
   \<and> ParameterReferenceInfo_getHoverText
     \<lparr>pri_name = ''size'', pri_description = None, pri_span = Span 3 4\<rparr> =
       ''**size** (parameter)''
   \<and> ParameterReferenceInfo_getHoverText
     \<lparr>pri_name = ''size'', pri_description = Some [], pri_span = Span 3 4\<rparr> =
       ''**size** (parameter)''
   \<and> ParameterReferenceInfo_getHoverText
     \<lparr>pri_name = ''size'', pri_description = Some ''VM size'', pri_span = Span 3 4\<rparr> =
       ''**size** (parameter)'' @ newline @ ''VM size''"
proof -
  let ?f = "\<lambda>d. \<lparr>fi_name = ''add'', fi_usage = ''add(a, b)'', fi_description = d,
                 fi_span = Span 3 3\<rparr>"
  let ?p = "\<lambda>d. \<lparr>pri_name = ''size'', pri_description = d, pri_span = Span 3 4\<rparr>"
  note t1 = hover_text_description [of "?f None" "?p None"]
  note t2 = hover_text_description [of "?f (Some [])" "?p (Some [])"]
  note t3 = hover_text_description [of "?f (Some ''Sum.'')" "?p (Some ''VM size'')"]
  have f1: "FunctionInfo_getHoverText (?f None) = ''**add(a, b)**''"
    using t1 by simp
  have f2: "FunctionInfo_getHoverText (?f (Some [])) = ''**add(a, b)**''"
    using t2 by simp
  have f3: "FunctionInfo_getHoverText (?f (Some ''Sum.'')) = ''**add(a, b)**'' @ newline @ ''Sum.''"
    using t3 by simp
  have p1: "ParameterReferenceInfo_getHoverText (?p None) = ''**size** (parameter)''"
    using t1 by simp
  have p2: "ParameterReferenceInfo_getHoverText (?p (Some [])) = ''**size** (parameter)''"
    using t2 by simp
  have p3: "ParameterReferenceInfo_getHoverText (?p (Some ''VM size'')) =
      ''**size** (parameter)'' @ newline @ ''VM size''"
    using t3 by simp
  show ?thesis using f1 f2 f3 p1 p2 p3 by simp
qed

end
